theory Spec2Isabelle
  imports Main "HOL-Library.Word"
begin

unbundle bit_operations_syntax

section \<open>ATtiny13A smart buzzer: machine model\<close>

text \<open>
  A shallow embedding of \<^verbatim>\<open>src/main.c\<close>. The C integer types are fixed-width words:
  \<^verbatim>\<open>uint8_t\<close> is \<open>8 word\<close>, \<^verbatim>\<open>uint16_t\<close> is \<open>16 word\<close>, and \<^verbatim>\<open>unsigned long\<close>
  (the type of the literals \<^verbatim>\<open>600000UL\<close> and \<^verbatim>\<open>75000UL\<close> on AVR) is \<open>32 word\<close>.
\<close>

type_synonym u8 = "8 word"
type_synonym u16 = "16 word"
type_synonym u32 = "32 word"

text \<open>
  \<^verbatim>\<open>F_CPU\<close> is supplied by the build and the \<^verbatim>\<open>#if\<close> at the top of the file rejects
  every value but the two below, so it is a two-valued parameter of the model.
\<close>

datatype f_cpu = F_CPU_1200000 | F_CPU_9600000

fun F_CPU :: "f_cpu \<Rightarrow> int" where
  "F_CPU F_CPU_1200000 = 1200000"
| "F_CPU F_CPU_9600000 = 9600000"

text \<open>
  Bit numbers of \<^verbatim>\<open>avr/io.h\<close> for the ATtiny13A, and the macros of the source file.
  They are abbreviations, as the preprocessor sees them.
\<close>

abbreviation (input) PB1 :: nat where "PB1 \<equiv> 1"
abbreviation (input) PB3 :: nat where "PB3 \<equiv> 3"
abbreviation (input) WGM01 :: nat where "WGM01 \<equiv> 1"
abbreviation (input) CS01 :: nat where "CS01 \<equiv> 1"
abbreviation (input) OCIE0A :: nat where "OCIE0A \<equiv> 2"

abbreviation (input) BUZZER_PIN :: nat where "BUZZER_PIN \<equiv> PB3"
abbreviation (input) SIGNAL_PIN :: nat where "SIGNAL_PIN \<equiv> PB1"

abbreviation (input) DEFAULT_FREQ :: u16 where "DEFAULT_FREQ \<equiv> 2500"
abbreviation (input) EEPROM_FREQ_ADDR :: nat where "EEPROM_FREQ_ADDR \<equiv> 0"
abbreviation (input) EEPROM_MAGIC_ADDR :: nat where "EEPROM_MAGIC_ADDR \<equiv> 2"
abbreviation (input) EEPROM_MAGIC :: u8 where "EEPROM_MAGIC \<equiv> 0xAB"


abbreviation (input) BEEP_SHORT_MS :: u16 where "BEEP_SHORT_MS \<equiv> 100"
abbreviation (input) PAUSE_SHORT_MS :: u16 where "PAUSE_SHORT_MS \<equiv> 100"

text \<open>
  The hardware the program touches: the Timer0 and port B registers, the global
  interrupt flag set by \<^verbatim>\<open>sei()\<close>, and the EEPROM as a byte store.
\<close>

record mcu =
  OCR0A :: u8
  DDRB :: u8
  PORTB :: u8
  PINB :: u8
  TCCR0A :: u8
  TCCR0B :: u8
  TIMSK0 :: u8
  SREG_I :: bool
  eeprom :: "nat \<Rightarrow> u8"

text \<open>
  What the program does to the outside world in order: EEPROM accesses, busy waits,
  watchdog operations and the calls into the tone generator.
\<close>

datatype event =
    EepromReadByte nat
  | EepromReadWord nat
  | EepromWriteWord nat u16
  | EepromWriteByte nat u8
  | DelayMs nat
  | DelayUs nat
  | WdtReset
  | CallToneStart u16
  | CallToneStop

text \<open>
  The whole system: the hardware, the global \<^verbatim>\<open>current_freq\<close>, and the trace of
  events so far (oldest first).
\<close>

record sys =
  hw :: mcu
  current_freq :: u16
  trace :: "event list"

definition emit :: "event \<Rightarrow> sys \<Rightarrow> sys" where
  "emit e s = s\<lparr>trace := trace s @ [e]\<rparr>"

section \<open>Sound generation\<close>

text \<open>
  \<^verbatim>\<open>tone_start\<close>: the quotient is computed in \<^verbatim>\<open>unsigned long\<close> and converted to
  \<^verbatim>\<open>uint16_t\<close> by the initialisation of \<^verbatim>\<open>ocr_val\<close>; the two clamps follow in the
  source's order; \<^verbatim>\<open>OCR0A\<close> receives the low byte.
\<close>

definition tone_start :: "f_cpu \<Rightarrow> u16 \<Rightarrow> mcu \<Rightarrow> mcu" where
  "tone_start clk freq m =
     (if freq = 0 then m
      else
        let ocr_val = (case clk of
                         F_CPU_9600000 \<Rightarrow> (ucast ((600000 :: u32) div ucast freq - 1) :: u16)
                       | F_CPU_1200000 \<Rightarrow> (ucast ((75000 :: u32) div ucast freq - 1) :: u16));
            ocr_val = (if ocr_val > 255 then 255 else ocr_val);
            ocr_val = (if ocr_val < 1 then 1 else ocr_val);
            m = m\<lparr>OCR0A := ucast ocr_val\<rparr>;
            m = m\<lparr>DDRB := DDRB m OR push_bit BUZZER_PIN 1\<rparr>;
            m = m\<lparr>TCCR0A := push_bit WGM01 1\<rparr>;
            m = m\<lparr>TCCR0B := push_bit CS01 1\<rparr>;
            m = m\<lparr>TIMSK0 := TIMSK0 m OR push_bit OCIE0A 1\<rparr>
        in m\<lparr>SREG_I := True\<rparr>)"

definition tone_stop :: "mcu \<Rightarrow> mcu" where
  "tone_stop m =
     (let m = m\<lparr>TIMSK0 := TIMSK0 m AND NOT (push_bit OCIE0A 1)\<rparr>;
          m = m\<lparr>TCCR0A := 0\<rparr>;
          m = m\<lparr>TCCR0B := 0\<rparr>
      in m\<lparr>PORTB := PORTB m AND NOT (push_bit BUZZER_PIN 1)\<rparr>)"

text \<open>The two clamps of \<^verbatim>\<open>tone_start\<close> on their own, to reason about them apart.\<close>

definition clamp16 :: "u16 \<Rightarrow> u16" where
  "clamp16 v = (let v = (if v > 255 then 255 else v) in if v < 1 then 1 else v)"

text \<open>A call of either function from the rest of the program is recorded in the trace.\<close>

definition call_tone_start :: "f_cpu \<Rightarrow> u16 \<Rightarrow> sys \<Rightarrow> sys" where
  "call_tone_start clk freq s = emit (CallToneStart freq) (s\<lparr>hw := tone_start clk freq (hw s)\<rparr>)"

definition call_tone_stop :: "sys \<Rightarrow> sys" where
  "call_tone_stop s = emit CallToneStop (s\<lparr>hw := tone_stop (hw s)\<rparr>)"

text \<open>The library's busy wait and watchdog reset, as events.\<close>

definition delay_ms :: "nat \<Rightarrow> sys \<Rightarrow> sys" where
  "delay_ms n s = emit (DelayMs n) s"

definition delay_us :: "nat \<Rightarrow> sys \<Rightarrow> sys" where
  "delay_us n s = emit (DelayUs n) s"

definition wdt_reset :: "sys \<Rightarrow> sys" where
  "wdt_reset s = emit WdtReset s"

text \<open>
  The loop that \<^verbatim>\<open>beep\<close> and \<^verbatim>\<open>pause\<close> both contain, on the \<^verbatim>\<open>uint16_t\<close> counter:
  \<^verbatim>\<open>while (duration_ms >= 10) { _delay_ms(10); wdt_reset(); duration_ms -= 10; }\<close>
\<close>

function delay_blocks :: "u16 \<Rightarrow> sys \<Rightarrow> sys" where
  "delay_blocks duration_ms s =
     (if duration_ms \<ge> 10
      then delay_blocks (duration_ms - 10) (wdt_reset (delay_ms 10 s))
      else s)"
  by pat_completeness auto
termination
proof (relation "measure (\<lambda>(d, s). unat d)")
  show "wf (measure (\<lambda>(d :: u16, s :: sys). unat d))"
    by simp
next
  fix duration_ms :: u16 and s :: sys
  assume "10 \<le> duration_ms"
  then have "unat (duration_ms - 10) = unat duration_ms - 10" and "10 \<le> unat duration_ms"
    by (simp_all add: unat_sub word_le_nat_alt)
  then show "((duration_ms - 10, wdt_reset (delay_ms 10 s)), (duration_ms, s))
               \<in> measure (\<lambda>(d, s). unat d)"
    by simp
qed

declare delay_blocks.simps [simp del]

definition beep :: "f_cpu \<Rightarrow> u16 \<Rightarrow> u16 \<Rightarrow> sys \<Rightarrow> sys" where
  "beep clk freq duration_ms s =
     call_tone_stop (delay_blocks duration_ms (call_tone_start clk freq s))"

definition pause :: "u16 \<Rightarrow> sys \<Rightarrow> sys" where
  "pause duration_ms s = delay_blocks duration_ms s"

section \<open>EEPROM\<close>

text \<open>
  The avr-libc accessors: a word is two bytes, low byte at the lower address.
\<close>

definition eeprom_read_byte :: "nat \<Rightarrow> sys \<Rightarrow> u8 \<times> sys" where
  "eeprom_read_byte a s = (eeprom (hw s) a, emit (EepromReadByte a) s)"

definition eeprom_read_word :: "nat \<Rightarrow> sys \<Rightarrow> u16 \<times> sys" where
  "eeprom_read_word a s =
     (ucast (eeprom (hw s) a) OR push_bit 8 (ucast (eeprom (hw s) (a + 1))),
      emit (EepromReadWord a) s)"

definition eeprom_write_byte :: "nat \<Rightarrow> u8 \<Rightarrow> sys \<Rightarrow> sys" where
  "eeprom_write_byte a v s =
     emit (EepromWriteByte a v) (s\<lparr>hw := (hw s)\<lparr>eeprom := (eeprom (hw s))(a := v)\<rparr>\<rparr>)"

definition eeprom_write_word :: "nat \<Rightarrow> u16 \<Rightarrow> sys \<Rightarrow> sys" where
  "eeprom_write_word a v s =
     emit (EepromWriteWord a v)
       (s\<lparr>hw := (hw s)\<lparr>eeprom := (eeprom (hw s))(a := ucast v, a + 1 := ucast (drop_bit 8 v))\<rparr>\<rparr>)"

definition load_freq_from_eeprom :: "sys \<Rightarrow> u16 \<times> sys" where
  "load_freq_from_eeprom s =
     (let (magic, s) = eeprom_read_byte EEPROM_MAGIC_ADDR s in
      if magic \<noteq> EEPROM_MAGIC then (DEFAULT_FREQ, s)
      else
        let (freq, s) = eeprom_read_word EEPROM_FREQ_ADDR s in
        if freq < 2400 \<or> freq > 4500 then (DEFAULT_FREQ, s)
        else (freq, s))"

definition save_freq_to_eeprom :: "u16 \<Rightarrow> sys \<Rightarrow> sys" where
  "save_freq_to_eeprom freq s =
     eeprom_write_byte EEPROM_MAGIC_ADDR EEPROM_MAGIC
       (eeprom_write_word EEPROM_FREQ_ADDR freq s)"

section \<open>Calibration\<close>








section \<open>Main loop\<close>

text \<open>\<^verbatim>\<open>fc_wants_sound\<close> returns the C value of \<^verbatim>\<open>!(PINB & (1 << PB1))\<close>: 1 or 0.\<close>

definition fc_wants_sound :: "mcu \<Rightarrow> u8" where
  "fc_wants_sound m = (if PINB m AND push_bit SIGNAL_PIN 1 = 0 then 1 else 0)"

text \<open>
  One turn of the polling loop of \<^verbatim>\<open>main\<close>, on the system state and the local
  \<^verbatim>\<open>sound_on\<close>.
\<close>

definition main_loop_body :: "f_cpu \<Rightarrow> sys \<times> u8 \<Rightarrow> sys \<times> u8" where
  "main_loop_body clk = (\<lambda>(s, sound_on).
     let (s, sound_on) =
           (if fc_wants_sound (hw s) \<noteq> 0
            then (if sound_on = 0
                  then (call_tone_start clk (current_freq s) s, 1)
                  else (s, sound_on))
            else (if sound_on \<noteq> 0
                  then (call_tone_stop s, 0)
                  else (s, sound_on)))
     in (delay_us 100 (wdt_reset s), sound_on))"

text \<open>
  The input pin is driven from outside. A run of the loop over a list of samples sets
  \<^verbatim>\<open>PINB\<close> to the next sample before each turn; whatever the line did between two
  samples is not part of the state.
\<close>

definition drive_input :: "u8 \<Rightarrow> sys \<Rightarrow> sys" where
  "drive_input pinb s = s\<lparr>hw := (hw s)\<lparr>PINB := pinb\<rparr>\<rparr>"

fun main_loop :: "f_cpu \<Rightarrow> u8 list \<Rightarrow> sys \<times> u8 \<Rightarrow> sys \<times> u8" where
  "main_loop clk [] st = st"
| "main_loop clk (pinb # rest) st =
     main_loop clk rest (main_loop_body clk (drive_input pinb (fst st), snd st))"

section \<open>Notions used by the properties\<close>

text \<open>
  The state after power-on reset: registers cleared, the EEPROM erased (every byte
  \<open>0xFF\<close>), \<^verbatim>\<open>current_freq\<close> at its initialiser, nothing traced yet. A second state
  holds the record a previous calibration left behind: 2800 Hz with the marker.
\<close>

definition reset_mcu :: mcu where
  "reset_mcu = \<lparr>OCR0A = 0, DDRB = 0, PORTB = 0, PINB = 0, TCCR0A = 0, TCCR0B = 0,
                 TIMSK0 = 0, SREG_I = False, eeprom = (\<lambda>a. 0xFF)\<rparr>"

definition boot_sys :: sys where
  "boot_sys = \<lparr>hw = reset_mcu, current_freq = DEFAULT_FREQ, trace = []\<rparr>"

definition calibrated_sys :: sys where
  "calibrated_sys =
     \<lparr>hw = reset_mcu\<lparr>eeprom := (\<lambda>a. 0xFF)(0 := 0xF0, 1 := 0x0A, 2 := 0xAB)\<rparr>,
      current_freq = DEFAULT_FREQ, trace = []\<rparr>"

text \<open>
  The frequency of the square wave for a compare value: the timer counts
  \<open>divisor + 1\<close> prescaled ticks between two toggles, and two toggles make a period.
\<close>

definition effective_freq :: "f_cpu \<Rightarrow> int \<Rightarrow> int" where
  "effective_freq clk divisor = F_CPU clk div (2 * 8 * (divisor + 1))"

text \<open>No tone is active: interrupt masked, timer stopped, output line low.\<close>

definition tone_idle :: "mcu \<Rightarrow> bool" where
  "tone_idle m \<longleftrightarrow>
     \<not> bit (TIMSK0 m) OCIE0A \<and> TCCR0A m = 0 \<and> TCCR0B m = 0 \<and> \<not> bit (PORTB m) BUZZER_PIN"

text \<open>The events of \<open>n\<close> turns of the delay loop, and the time a trace spends waiting.\<close>

definition wait_events :: "nat \<Rightarrow> event list" where
  "wait_events n = concat (replicate n [DelayMs 10, WdtReset])"

fun elapsed_ms :: "event list \<Rightarrow> nat" where
  "elapsed_ms [] = 0"
| "elapsed_ms (DelayMs n # es) = n + elapsed_ms es"
| "elapsed_ms (e # es) = elapsed_ms es"

text \<open>
  The longest time a trace waits without a watchdog reset: \<open>cur\<close> is the time waited
  since the last reset, \<open>best\<close> the longest such time so far.
\<close>

fun unguarded_ms :: "event list \<Rightarrow> nat \<Rightarrow> nat \<Rightarrow> nat" where
  "unguarded_ms [] cur best = max cur best"
| "unguarded_ms (DelayMs n # es) cur best = unguarded_ms es (cur + n) (max best (cur + n))"
| "unguarded_ms (WdtReset # es) cur best = unguarded_ms es 0 best"
| "unguarded_ms (e # es) cur best = unguarded_ms es cur best"

text \<open>The calls into the tone generator that a trace holds, in order.\<close>

fun tone_calls :: "event list \<Rightarrow> event list" where
  "tone_calls [] = []"
| "tone_calls (CallToneStart f # es) = CallToneStart f # tone_calls es"
| "tone_calls (CallToneStop # es) = CallToneStop # tone_calls es"
| "tone_calls (e # es) = tone_calls es"

fun count_tone_start :: "event list \<Rightarrow> nat" where
  "count_tone_start [] = 0"
| "count_tone_start (CallToneStart f # es) = Suc (count_tone_start es)"
| "count_tone_start (e # es) = count_tone_start es"

fun count_tone_stop :: "event list \<Rightarrow> nat" where
  "count_tone_stop [] = 0"
| "count_tone_stop (CallToneStop # es) = Suc (count_tone_stop es)"
| "count_tone_stop (e # es) = count_tone_stop es"

text \<open>
  The frequency the next boot would use: what \<^verbatim>\<open>load_freq_from_eeprom\<close> returns for a
  given EEPROM content.
\<close>

definition persisted_freq :: "(nat \<Rightarrow> u8) \<Rightarrow> u16" where
  "persisted_freq e =
     fst (load_freq_from_eeprom \<lparr>hw = reset_mcu\<lparr>eeprom := e\<rparr>, current_freq = 0, trace = []\<rparr>)"

text \<open>
  A point of an execution is a prefix of its trace. Replaying the prefix gives the EEPROM
  content at that point; \<open>last_tone\<close> is the tone playing or most recently played there;
  \<open>tone_since_save\<close> is that tone unless the EEPROM has been written since it started.
\<close>

fun replay_eeprom :: "event \<Rightarrow> (nat \<Rightarrow> u8) \<Rightarrow> (nat \<Rightarrow> u8)" where
  "replay_eeprom (EepromWriteWord a v) e = e(a := ucast v, a + 1 := ucast (drop_bit 8 v))"
| "replay_eeprom (EepromWriteByte a v) e = e(a := v)"
| "replay_eeprom ev e = e"

fun last_tone :: "event list \<Rightarrow> u16 option \<Rightarrow> u16 option" where
  "last_tone [] t = t"
| "last_tone (CallToneStart f # es) t = last_tone es (Some f)"
| "last_tone (e # es) t = last_tone es t"

fun tone_since_save :: "event list \<Rightarrow> u16 option \<Rightarrow> u16 option" where
  "tone_since_save [] t = t"
| "tone_since_save (CallToneStart f # es) t = tone_since_save es (Some f)"
| "tone_since_save (EepromWriteWord a v # es) t = tone_since_save es None"
| "tone_since_save (EepromWriteByte a v # es) t = tone_since_save es None"
| "tone_since_save (e # es) t = tone_since_save es t"

text \<open>
  \<open>persisted_is e t\<close>: if there is a tone \<open>t\<close>, it is the frequency persisted in \<open>e\<close>.
  The two point predicates compare the persisted frequency at a point with the tone
  playing or most recently played there, and with that tone when nothing was saved
  since it started. \<open>persisted_throughout\<close> checks the latter at every prefix of a list
  of events, starting from a given EEPROM content and tone.
\<close>

definition persisted_is :: "(nat \<Rightarrow> u8) \<Rightarrow> u16 option \<Rightarrow> bool" where
  "persisted_is e t = (case t of None \<Rightarrow> True | Some f \<Rightarrow> persisted_freq e = f)"



fun persisted_throughout :: "event list \<Rightarrow> (nat \<Rightarrow> u8) \<Rightarrow> u16 option \<Rightarrow> bool" where
  "persisted_throughout [] e t = persisted_is e t"
| "persisted_throughout (x # xs) e t =
     (persisted_is e t \<and> persisted_throughout xs (replay_eeprom x e) (tone_since_save [x] t))"




section \<open>Word arithmetic of the divisor\<close>

lemma unat_u16_less: "unat (f :: u16) < 65536"
  using unsigned_less [of f, where ?'a = nat] by simp

lemma unat_ucast_u16_u32: "unat (ucast (f :: u16) :: u32) = unat f"
proof -
  have "unat f < 2 ^ 32"
    using unat_u16_less [of f] by simp
  then show ?thesis
    by (simp add: unsigned_ucast_eq take_bit_eq_mod)
qed

text \<open>The subtraction never wraps: the quotient is at least 1 for a 16-bit divisor.\<close>

lemma unat_quot_minus_one:
  fixes f :: u16 and c :: u32
  assumes "f \<noteq> 0" and "65536 \<le> unat c"
  shows "unat (c div ucast f - 1) = unat c div unat f - 1"
proof -
  have pos: "0 < unat f" using assms(1) by (simp add: unat_gt_0)
  have "unat f \<le> unat c" using unat_u16_less [of f] assms(2) by simp
  then have "1 \<le> unat c div unat f" using pos
    by (simp add: Suc_le_eq div_greater_zero_iff)
  then have "c div ucast f \<noteq> 0"
    by (simp add: unat_eq_zero [symmetric] unat_div unat_ucast_u16_u32 del: unat_eq_zero)
  then show ?thesis
    by (simp add: unat_minus_one unat_div unat_ucast_u16_u32)
qed

text \<open>
  The conversion of the 32-bit result to \<^verbatim>\<open>uint16_t\<close> can drop high bits only for
  frequencies below 10 Hz, and there the value stays above 255 on both sides.
\<close>

lemma trunc_600000:
  fixes n :: nat
  assumes "0 < n"
  shows "min 255 ((600000 div n - 1) mod 65536) = min 255 (600000 div n - 1)"
proof (cases "10 \<le> n")
  case True
  then have "600000 div n \<le> 600000 div 10"
    by (intro div_le_mono2) simp_all
  then have "600000 div n - 1 < 65536" by simp
  then show ?thesis by simp
next
  case False
  with assms have "n \<in> {1, 2, 3, 4, 5, 6, 7, 8, 9}" by auto
  then show ?thesis by auto
qed

lemma trunc_75000:
  fixes n :: nat
  assumes "0 < n"
  shows "min 255 ((75000 div n - 1) mod 65536) = min 255 (75000 div n - 1)"
proof (cases "2 \<le> n")
  case True
  then have "75000 div n \<le> 75000 div 2"
    by (intro div_le_mono2) simp_all
  then have "75000 div n - 1 < 65536" by simp
  then show ?thesis by simp
next
  case False
  with assms have "n = 1" by auto
  then show ?thesis by simp
qed

lemma unat_clamp16: "unat (ucast (clamp16 v) :: u8) = max 1 (min 255 (unat v))"
  by (auto simp add: clamp16_def Let_def word_less_nat_alt unsigned_ucast_eq take_bit_eq_mod
      max_def min_def)

lemma OCR0A_tone_start_9600000:
  assumes "f \<noteq> 0"
  shows "unat (OCR0A (tone_start F_CPU_9600000 f m)) = max 1 (min 255 (600000 div unat f - 1))"
proof -
  have pos: "0 < unat f" using assms by (simp add: unat_gt_0)
  have ocr: "OCR0A (tone_start F_CPU_9600000 f m) =
      ucast (clamp16 (ucast ((600000 :: u32) div ucast f - 1) :: u16))"
    using assms by (simp add: tone_start_def clamp16_def Let_def)
  have "unat (ucast ((600000 :: u32) div ucast f - 1) :: u16) = (600000 div unat f - 1) mod 65536"
    using unat_quot_minus_one [OF assms, of 600000]
    by (simp add: unsigned_ucast_eq take_bit_eq_mod)
  then show ?thesis
    using trunc_600000 [OF pos] by (simp add: ocr unat_clamp16)
qed

lemma OCR0A_tone_start_1200000:
  assumes "f \<noteq> 0"
  shows "unat (OCR0A (tone_start F_CPU_1200000 f m)) = max 1 (min 255 (75000 div unat f - 1))"
proof -
  have pos: "0 < unat f" using assms by (simp add: unat_gt_0)
  have ocr: "OCR0A (tone_start F_CPU_1200000 f m) =
      ucast (clamp16 (ucast ((75000 :: u32) div ucast f - 1) :: u16))"
    using assms by (simp add: tone_start_def clamp16_def Let_def)
  have "unat (ucast ((75000 :: u32) div ucast f - 1) :: u16) = (75000 div unat f - 1) mod 65536"
    using unat_quot_minus_one [OF assms, of 75000]
    by (simp add: unsigned_ucast_eq take_bit_eq_mod)
  then show ?thesis
    using trunc_75000 [OF pos] by (simp add: ocr unat_clamp16)
qed

text \<open>The same value over the integers, where \<open>- 1\<close> may go below zero before the clamp.\<close>

lemma int_clamp:
  "int (max 1 (min 255 (c div n - 1))) = max 1 (min 255 (int c div int n - 1))"
proof -
  have "int (max 1 (min 255 (q - 1))) = max 1 (min 255 (int q - 1))" for q :: nat
    by (cases q) (simp_all add: max_def min_def)
  from this [of "c div n"] show ?thesis
    by (simp add: zdiv_int)
qed

lemma uint_OCR0A_tone_start:
  assumes "f \<noteq> 0"
  shows "uint (OCR0A (tone_start clk f m)) =
           max 1 (min 255 ((case clk of F_CPU_1200000 \<Rightarrow> 75000 | F_CPU_9600000 \<Rightarrow> 600000)
                             div uint f - 1))"
proof -
  have f: "uint f = int (unat f)" by simp
  have "uint (OCR0A (tone_start clk f m)) = int (unat (OCR0A (tone_start clk f m)))"
    by simp
  also have "\<dots> = max 1 (min 255 ((case clk of F_CPU_1200000 \<Rightarrow> 75000 | F_CPU_9600000 \<Rightarrow> 600000)
                                    div int (unat f) - 1))"
  proof (cases clk)
    case F_CPU_1200000
    show ?thesis
      unfolding F_CPU_1200000 OCR0A_tone_start_1200000 [OF assms]
      using int_clamp [of 75000 "unat f"] by simp
  next
    case F_CPU_9600000
    show ?thesis
      unfolding F_CPU_9600000 OCR0A_tone_start_9600000 [OF assms]
      using int_clamp [of 600000 "unat f"] by simp
  qed
  finally show ?thesis unfolding f .
qed

lemma F_CPU_div:
  assumes "0 \<le> (x :: int)"
  shows "F_CPU clk div (2 * 8 * x) =
           (case clk of F_CPU_1200000 \<Rightarrow> 75000 | F_CPU_9600000 \<Rightarrow> 600000) div x"
proof -
  have "F_CPU clk div (16 * x) = F_CPU clk div 16 div x"
    using assms by (simp add: zdiv_zmult2_eq)
  then show ?thesis by (cases clk) simp_all
qed

section \<open>The tone divisor\<close>

lemma bit_set_bit:
  fixes x :: u8
  assumes "n < 8"
  shows "bit (x OR push_bit n 1) n"
  using assms by (simp add: bit_simps)

text \<open>
  For a frequency above zero every write of \<^verbatim>\<open>tone_start\<close> happens, whatever the
  quotient: the state afterwards is the state before with the six writes applied.
\<close>

lemma tone_start_state:
  assumes "f \<noteq> 0"
  shows "tone_start clk f m =
           m\<lparr>OCR0A := OCR0A (tone_start clk f m),
             DDRB := DDRB m OR push_bit BUZZER_PIN 1,
             TCCR0A := push_bit WGM01 1,
             TCCR0B := push_bit CS01 1,
             TIMSK0 := TIMSK0 m OR push_bit OCIE0A 1,
             SREG_I := True\<rparr>"
  using assms by (simp add: tone_start_def Let_def)

lemma tone_start_running:
  assumes "f \<noteq> 0"
  shows "bit (DDRB (tone_start clk f m)) BUZZER_PIN"
    and "TCCR0A (tone_start clk f m) = push_bit WGM01 1"
    and "TCCR0B (tone_start clk f m) = push_bit CS01 1"
    and "bit (TIMSK0 (tone_start clk f m)) OCIE0A"
    and "SREG_I (tone_start clk f m)"
    and "PORTB (tone_start clk f m) = PORTB m"
    and "PINB (tone_start clk f m) = PINB m"
    and "eeprom (tone_start clk f m) = eeprom m"
proof -
  have d: "DDRB (tone_start clk f m) = DDRB m OR push_bit BUZZER_PIN 1"
    and t: "TIMSK0 (tone_start clk f m) = TIMSK0 m OR push_bit OCIE0A 1"
    using assms by (simp_all add: tone_start_def Let_def)
  show "bit (DDRB (tone_start clk f m)) BUZZER_PIN"
    unfolding d by (rule bit_set_bit) simp
  show "bit (TIMSK0 (tone_start clk f m)) OCIE0A"
    unfolding t by (rule bit_set_bit) simp
  show "TCCR0A (tone_start clk f m) = push_bit WGM01 1"
    and "TCCR0B (tone_start clk f m) = push_bit CS01 1"
    and "SREG_I (tone_start clk f m)"
    and "PORTB (tone_start clk f m) = PORTB m"
    and "PINB (tone_start clk f m) = PINB m"
    and "eeprom (tone_start clk f m) = eeprom m"
    using assms by (simp_all add: tone_start_def Let_def)
qed

text \<open>
  Claim C3. \<^verbatim>\<open>tone_start(0)\<close> returns at once and leaves every register, the interrupt
  flag and the EEPROM as they were. For every frequency \<open>f > 0\<close> the value loaded into
  \<^verbatim>\<open>OCR0A\<close> is \<open>F_CPU / (2 * 8 * f) - 1\<close> clamped to \<open>[1, 255]\<close>, which is
  \<open>75000 / f - 1\<close> at 1.2 MHz and \<open>600000 / f - 1\<close> at 9.6 MHz, clamped; the intermediate
  16-bit variable does not change that value. A frequency whose quotient falls outside
  the range therefore gets the nearest bound, 1 or 255. And for every such frequency,
  in range or not, the tone is started: the state afterwards is the state before with
  \<^verbatim>\<open>OCR0A\<close> loaded, \<^verbatim>\<open>PB3\<close> made an output, the timer put in CTC mode with prescaler 8
  (\<^verbatim>\<open>TCCR0A = 1 << WGM01\<close>, \<^verbatim>\<open>TCCR0B = 1 << CS01\<close>), the compare-match interrupt
  enabled in \<^verbatim>\<open>TIMSK0\<close> and interrupts enabled globally; the port, the input pins and
  the EEPROM are untouched, and the hardware is not idle.
\<close>

theorem tone_start_divisor:
  "tone_start clk 0 m = m
   \<and> (f \<noteq> 0 \<longrightarrow>
        uint (OCR0A (tone_start clk f m)) = max 1 (min 255 (F_CPU clk div (2 * 8 * uint f) - 1))
      \<and> uint (OCR0A (tone_start F_CPU_1200000 f m)) = max 1 (min 255 (75000 div uint f - 1))
      \<and> uint (OCR0A (tone_start F_CPU_9600000 f m)) = max 1 (min 255 (600000 div uint f - 1))
      \<and> tone_start clk f m =
           m\<lparr>OCR0A := OCR0A (tone_start clk f m),
             DDRB := DDRB m OR push_bit BUZZER_PIN 1,
             TCCR0A := push_bit WGM01 1,
             TCCR0B := push_bit CS01 1,
             TIMSK0 := TIMSK0 m OR push_bit OCIE0A 1,
             SREG_I := True\<rparr>
      \<and> bit (DDRB (tone_start clk f m)) BUZZER_PIN
      \<and> TCCR0A (tone_start clk f m) = 2
      \<and> TCCR0B (tone_start clk f m) = 2
      \<and> bit (TIMSK0 (tone_start clk f m)) OCIE0A
      \<and> SREG_I (tone_start clk f m)
      \<and> PORTB (tone_start clk f m) = PORTB m
      \<and> PINB (tone_start clk f m) = PINB m
      \<and> eeprom (tone_start clk f m) = eeprom m
      \<and> \<not> tone_idle (tone_start clk f m))"
proof -
  have zero: "tone_start clk 0 m = m"
    by (simp add: tone_start_def)
  have general: "uint (OCR0A (tone_start clk f m)) =
                   max 1 (min 255 (F_CPU clk div (2 * 8 * uint f) - 1))" if "f \<noteq> 0"
    using uint_OCR0A_tone_start [OF that, of clk m]
    unfolding F_CPU_div [OF uint_ge_0] .
  have slow: "uint (OCR0A (tone_start F_CPU_1200000 f m)) = max 1 (min 255 (75000 div uint f - 1))"
    if "f \<noteq> 0"
    using that by (simp add: uint_OCR0A_tone_start)
  have fast: "uint (OCR0A (tone_start F_CPU_9600000 f m)) = max 1 (min 255 (600000 div uint f - 1))"
    if "f \<noteq> 0"
    using that by (simp add: uint_OCR0A_tone_start)
  have a: "TCCR0A (tone_start clk f m) = 2" and b: "TCCR0B (tone_start clk f m) = 2"
    if "f \<noteq> 0"
    using tone_start_running(2,3) [OF that, of clk m] by simp_all
  have busy: "\<not> tone_idle (tone_start clk f m)" if "f \<noteq> 0"
    using tone_start_running(4) [OF that, of clk m] by (simp add: tone_idle_def)
  from zero general slow fast a b busy tone_start_state [of f clk m]
    tone_start_running(1,4,5,6,7,8) [of f clk m]
  show ?thesis by blast
qed

text \<open>
  The default 2500 Hz gives 29 at 1.2 MHz and 239 at 9.6 MHz; 1 Hz is clamped to 255 and
  65535 Hz at 1.2 MHz to 1. In each case, the two out-of-range ones included, the timer
  runs afterwards with its interrupt enabled.
\<close>

theorem tone_start_divisor_witness:
  "(2500 :: u16) \<noteq> 0
   \<and> uint (OCR0A (tone_start F_CPU_1200000 2500 reset_mcu)) = 29
   \<and> uint (OCR0A (tone_start F_CPU_9600000 2500 reset_mcu)) = 239
   \<and> uint (OCR0A (tone_start F_CPU_9600000 1 reset_mcu)) = 255
   \<and> uint (OCR0A (tone_start F_CPU_1200000 65535 reset_mcu)) = 1
   \<and> tone_start F_CPU_1200000 0 reset_mcu = reset_mcu
   \<and> TCCR0A (tone_start F_CPU_9600000 1 reset_mcu) = 2
   \<and> TCCR0B (tone_start F_CPU_9600000 1 reset_mcu) = 2
   \<and> TIMSK0 (tone_start F_CPU_9600000 1 reset_mcu) = 4
   \<and> DDRB (tone_start F_CPU_9600000 1 reset_mcu) = 8
   \<and> SREG_I (tone_start F_CPU_9600000 1 reset_mcu)
   \<and> \<not> tone_idle (tone_start F_CPU_9600000 1 reset_mcu)
   \<and> TCCR0B (tone_start F_CPU_1200000 65535 reset_mcu) = 2
   \<and> bit (TIMSK0 (tone_start F_CPU_1200000 65535 reset_mcu)) OCIE0A
   \<and> \<not> tone_idle (tone_start F_CPU_1200000 65535 reset_mcu)"
proof -
  have r: "TIMSK0 reset_mcu = 0" "DDRB reset_mcu = 0"
    by (simp_all add: reset_mcu_def)
  have t: "TIMSK0 (tone_start F_CPU_9600000 1 reset_mcu) = 4"
    and d: "DDRB (tone_start F_CPU_9600000 1 reset_mcu) = 8"
    by (simp_all add: tone_start_def reset_mcu_def)
  from tone_start_divisor [of F_CPU_1200000 reset_mcu 2500]
    tone_start_divisor [of F_CPU_9600000 reset_mcu 1]
    tone_start_divisor [of F_CPU_1200000 reset_mcu 65535] t d
  show ?thesis by simp
qed

section \<open>The frequency read back from the divisor\<close>

lemma quotient_bracket:
  fixes q f :: int
  assumes "0 < f"
  shows "f * (q div f) \<le> q \<and> q < f * (q div f) + f"
proof -
  have "f * (q div f) + q mod f = q" by (rule mult_div_mod_eq)
  moreover have "0 \<le> q mod f" and "q mod f < f" using assms by simp_all
  ultimately show ?thesis by linarith
qed

lemma int_le_div:
  fixes q a f :: int
  assumes "0 < a" and "f * a \<le> q"
  shows "f \<le> q div a"
proof -
  have "(f * a) div a \<le> q div a"
    using assms by (intro zdiv_mono1) simp_all
  then show ?thesis using assms(1) by simp
qed

lemma int_div_less:
  fixes q a f :: int
  assumes "0 < a" and "q < f * a"
  shows "q div a < f"
proof (rule ccontr)
  assume "\<not> q div a < f"
  then have "f \<le> q div a" by simp
  then have "f * a \<le> (q div a) * a"
    using assms(1) by (simp add: mult_right_mono)
  also have "\<dots> \<le> q"
    using quotient_bracket [OF assms(1), of q] by (simp add: mult.commute)
  finally show False using assms(2) by simp
qed

text \<open>In the sweep range neither clamp is reached.\<close>

lemma divisor_in_sweep_range:
  assumes lo: "2400 \<le> f" and hi: "f \<le> 3000"
  shows "uint (OCR0A (tone_start clk f m)) =
           (case clk of F_CPU_1200000 \<Rightarrow> 75000 | F_CPU_9600000 \<Rightarrow> 600000) div uint f - 1"
    and "24 \<le> uint (OCR0A (tone_start clk f m))"
    and "uint (OCR0A (tone_start clk f m)) \<le> 249"
proof -
  have f: "2400 \<le> uint f" "uint f \<le> 3000"
    using lo hi by (simp_all add: word_le_def)
  then have nz: "f \<noteq> 0" by auto
  let ?q = "(case clk of F_CPU_1200000 \<Rightarrow> 75000 | F_CPU_9600000 \<Rightarrow> 600000) :: int"
  have q: "75000 \<le> ?q" "?q \<le> 600000" by (cases clk; simp)+
  have "?q div 3000 \<le> ?q div uint f"
    using f q by (intro zdiv_mono2) simp_all
  moreover have "?q div uint f \<le> ?q div 2400"
    using f q by (intro zdiv_mono2) simp_all
  moreover have "25 \<le> ?q div 3000" "?q div 2400 \<le> 250" by (cases clk; simp)+
  ultimately have b: "25 \<le> ?q div uint f" "?q div uint f \<le> 250" by simp_all
  then show "uint (OCR0A (tone_start clk f m)) = ?q div uint f - 1"
    unfolding uint_OCR0A_tone_start [OF nz] by simp
  with b show "24 \<le> uint (OCR0A (tone_start clk f m))" "uint (OCR0A (tone_start clk f m)) \<le> 249"
    by simp_all
qed

lemma effective_freq_eq:
  assumes "0 \<le> d"
  shows "effective_freq clk d =
           (case clk of F_CPU_1200000 \<Rightarrow> 75000 | F_CPU_9600000 \<Rightarrow> 600000) div (d + 1)"
  unfolding effective_freq_def using assms by (intro F_CPU_div) simp

lemma effective_freq_antimono:
  assumes "0 \<le> d1" and "d1 \<le> d2"
  shows "effective_freq clk d2 \<le> effective_freq clk d1"
  unfolding effective_freq_def
  using assms by (intro zdiv_mono2) (cases clk; simp)+

lemma divisor_antimono:
  assumes "f1 \<noteq> 0" and "f1 \<le> f2"
  shows "OCR0A (tone_start clk f2 m2) \<le> OCR0A (tone_start clk f1 m1)"
proof -
  have f: "0 < uint f1" "uint f1 \<le> uint f2"
    using assms by (simp_all add: word_le_def word_neq_0_conv word_less_def)
  then have nz: "f2 \<noteq> 0" by auto
  let ?q = "(case clk of F_CPU_1200000 \<Rightarrow> 75000 | F_CPU_9600000 \<Rightarrow> 600000) :: int"
  have "?q div uint f2 \<le> ?q div uint f1"
    using f by (intro zdiv_mono2) (cases clk; simp)+
  then show ?thesis
    unfolding word_le_def uint_OCR0A_tone_start [OF assms(1)] uint_OCR0A_tone_start [OF nz]
    by simp
qed

text \<open>
  Claim C4. For every frequency \<open>f\<close> of the sweep range \<open>[2400, 3000]\<close>, let \<open>d\<close> be the
  value \<^verbatim>\<open>tone_start\<close> loads into \<^verbatim>\<open>OCR0A\<close>. Then \<open>d\<close> lies in \<open>[1, 255]\<close>, and \<open>f\<close> lies
  between the frequencies of the two neighbouring divisors: above the one for \<open>d + 1\<close>
  and at most the one for \<open>d\<close>, so the tone played is less than one step above \<open>f\<close>.
  This holds of the exact quotients (the two products) and of the rounded read-back
  \<open>effective_freq\<close>. The read-back frequency never rises with the divisor, the divisor
  never rises with the requested frequency, and for every frequency above zero the
  divisor stays within the bounds \<open>[1, 255]\<close>.
\<close>

theorem tone_start_effective_freq:
  assumes "2400 \<le> f" and "f \<le> 3000" and d: "d = uint (OCR0A (tone_start clk f m))"
  shows "1 \<le> d \<and> d \<le> 255
       \<and> uint f * (2 * 8 * (d + 1)) \<le> F_CPU clk \<and> F_CPU clk < uint f * (2 * 8 * (d + 2))
       \<and> effective_freq clk (d + 1) < uint f \<and> uint f \<le> effective_freq clk d
       \<and> (\<forall>d1 d2. 0 \<le> d1 \<and> d1 \<le> d2 \<longrightarrow> effective_freq clk d2 \<le> effective_freq clk d1)
       \<and> (\<forall>f1 f2 m1 m2. f1 \<noteq> 0 \<and> f1 \<le> f2 \<longrightarrow>
             OCR0A (tone_start clk f2 m2) \<le> OCR0A (tone_start clk f1 m1))
       \<and> (\<forall>f1 m1. f1 \<noteq> 0 \<longrightarrow>
             1 \<le> uint (OCR0A (tone_start clk f1 m1)) \<and> uint (OCR0A (tone_start clk f1 m1)) \<le> 255)"
proof -
  let ?q = "(case clk of F_CPU_1200000 \<Rightarrow> 75000 | F_CPU_9600000 \<Rightarrow> 600000) :: int"
  have fpos: "0 < uint f" using assms(1) by (simp add: word_le_def)
  have dq: "?q div uint f = d + 1" and d24: "24 \<le> d" and d249: "d \<le> 249"
    using divisor_in_sweep_range [OF assms(1,2), of clk m] d by simp_all
  have br: "uint f * (d + 1) \<le> ?q" "?q < uint f * (d + 1) + uint f"
    using quotient_bracket [OF fpos, of ?q] unfolding dq by simp_all
  have br2: "?q < uint f * (d + 2)"
    using br(2) by (simp add: algebra_simps)
  have q16: "F_CPU clk = 16 * ?q" by (cases clk) simp_all
  have e1: "effective_freq clk (d + 1) = ?q div (d + 2)"
    using effective_freq_eq [of "d + 1" clk] d24 by (simp add: add.commute)
  have e0: "effective_freq clk d = ?q div (d + 1)"
    using effective_freq_eq [of d clk] d24 by simp
  have c1: "1 \<le> d \<and> d \<le> 255" using d24 d249 by simp
  have "uint f * (2 * 8 * (d + 1)) = 16 * (uint f * (d + 1))" by simp
  then have c2: "uint f * (2 * 8 * (d + 1)) \<le> F_CPU clk"
    using br(1) unfolding q16 by linarith
  have "uint f * (2 * 8 * (d + 2)) = 16 * (uint f * (d + 2))" by simp
  then have c3: "F_CPU clk < uint f * (2 * 8 * (d + 2))"
    using br2 unfolding q16 by linarith
  have c4: "effective_freq clk (d + 1) < uint f"
    unfolding e1 using br2 d24 by (intro int_div_less) simp_all
  have c5: "uint f \<le> effective_freq clk d"
    unfolding e0 using br(1) d24 by (intro int_le_div) simp_all
  have c6: "\<forall>d1 d2. 0 \<le> d1 \<and> d1 \<le> d2 \<longrightarrow> effective_freq clk d2 \<le> effective_freq clk d1"
    using effective_freq_antimono by blast
  have c7: "\<forall>f1 f2 m1 m2. f1 \<noteq> 0 \<and> f1 \<le> f2 \<longrightarrow>
             OCR0A (tone_start clk f2 m2) \<le> OCR0A (tone_start clk f1 m1)"
    using divisor_antimono by blast
  have c8: "\<forall>f1 m1. f1 \<noteq> 0 \<longrightarrow>
             1 \<le> uint (OCR0A (tone_start clk f1 m1)) \<and> uint (OCR0A (tone_start clk f1 m1)) \<le> 255"
    by (simp add: uint_OCR0A_tone_start)
  from c1 c2 c3 c4 c5 c6 c7 c8 show ?thesis by blast
qed

text \<open>
  At 1.2 MHz a request for 2400 Hz loads 30 and plays 2419 Hz; the next divisor, 31,
  would play 2343 Hz.
\<close>

theorem tone_start_effective_freq_witness:
  "(2400 :: u16) \<le> 2400 \<and> (2400 :: u16) \<le> 3000
   \<and> uint (OCR0A (tone_start F_CPU_1200000 2400 reset_mcu)) = 30
   \<and> effective_freq F_CPU_1200000 31 < 2400 \<and> 2400 \<le> effective_freq F_CPU_1200000 30
   \<and> effective_freq F_CPU_1200000 31 = 2343 \<and> effective_freq F_CPU_1200000 30 = 2419"
proof -
  have d: "30 = uint (OCR0A (tone_start F_CPU_1200000 2400 reset_mcu))"
    by (simp add: tone_start_def reset_mcu_def)
  have lo: "(2400 :: u16) \<le> 2400" and hi: "(2400 :: u16) \<le> 3000" by simp_all
  from tone_start_effective_freq [OF lo hi d] d lo hi show ?thesis
    by (simp add: effective_freq_def)
qed

section \<open>Stopping the tone\<close>

lemma clear_bit_idle:
  fixes x :: u8
  assumes "\<not> bit x n"
  shows "x AND NOT (push_bit n 1) = x"
  using assms by (intro bit_word_eqI) (auto simp add: bit_simps)

lemma bit_clear_bit:
  fixes x :: u8
  shows "\<not> bit (x AND NOT (push_bit n 1)) n"
  by (auto simp add: bit_simps)

lemma tone_stop_idle: "tone_idle m \<Longrightarrow> tone_stop m = m"
  unfolding tone_idle_def tone_stop_def Let_def
  by (simp add: clear_bit_idle del: push_bit_of_1)

lemma tone_idle_tone_stop: "tone_idle (tone_stop m)"
  unfolding tone_idle_def tone_stop_def Let_def
  by (simp add: bit_clear_bit del: push_bit_of_1)

text \<open>
  Claim C8. \<^verbatim>\<open>tone_stop\<close> is idempotent: a second call changes nothing. After any call
  the compare-match interrupt is masked, both timer control registers are zero and
  the output pin is low; and when no tone is active to begin with, the call leaves the
  whole hardware state as it was, so nothing is re-enabled.
\<close>

theorem tone_stop_idempotent:
  "tone_stop (tone_stop m) = tone_stop m
   \<and> \<not> bit (TIMSK0 (tone_stop m)) OCIE0A
   \<and> TCCR0A (tone_stop m) = 0 \<and> TCCR0B (tone_stop m) = 0
   \<and> \<not> bit (PORTB (tone_stop m)) BUZZER_PIN
   \<and> (tone_idle m \<longrightarrow> tone_stop m = m)"
proof -
  have idle: "tone_idle (tone_stop m)" by (rule tone_idle_tone_stop)
  then have "tone_stop (tone_stop m) = tone_stop m" by (rule tone_stop_idle)
  with idle tone_stop_idle [of m] show ?thesis
    unfolding tone_idle_def by blast
qed

text \<open>
  After reset no tone is active and stopping changes nothing; after a tone was started
  at 2500 Hz, stopping it leaves the hardware idle.
\<close>

theorem tone_stop_idempotent_witness:
  "tone_idle reset_mcu \<and> tone_stop reset_mcu = reset_mcu
   \<and> \<not> tone_idle (tone_start F_CPU_1200000 2500 reset_mcu)
   \<and> tone_idle (tone_stop (tone_start F_CPU_1200000 2500 reset_mcu))
   \<and> tone_stop (tone_stop (tone_start F_CPU_1200000 2500 reset_mcu))
       = tone_stop (tone_start F_CPU_1200000 2500 reset_mcu)"
proof -
  have i: "tone_idle reset_mcu"
    by (simp add: tone_idle_def reset_mcu_def)
  have n: "\<not> tone_idle (tone_start F_CPU_1200000 2500 reset_mcu)"
    by (simp add: tone_idle_def tone_start_def reset_mcu_def)
  from tone_stop_idempotent [of reset_mcu]
    tone_stop_idempotent [of "tone_start F_CPU_1200000 2500 reset_mcu"] i n
  show ?thesis
    unfolding tone_idle_def by simp
qed

section \<open>Traces of the primitive operations\<close>

lemma trace_emit [simp]: "trace (emit e s) = trace s @ [e]"
  by (simp add: emit_def)

lemma hw_emit [simp]: "hw (emit e s) = hw s"
  by (simp add: emit_def)

lemma current_freq_emit [simp]: "current_freq (emit e s) = current_freq s"
  by (simp add: emit_def)

lemma trace_call_tone_start [simp]:
  "trace (call_tone_start clk f s) = trace s @ [CallToneStart f]"
  by (simp add: call_tone_start_def)

lemma trace_call_tone_stop [simp]: "trace (call_tone_stop s) = trace s @ [CallToneStop]"
  by (simp add: call_tone_stop_def)

lemma current_freq_call_tone_start [simp]:
  "current_freq (call_tone_start clk f s) = current_freq s"
  by (simp add: call_tone_start_def)

lemma current_freq_call_tone_stop [simp]: "current_freq (call_tone_stop s) = current_freq s"
  by (simp add: call_tone_stop_def)

lemma eeprom_tone_start [simp]: "eeprom (tone_start clk f m) = eeprom m"
  by (simp add: tone_start_def Let_def)

lemma eeprom_tone_stop [simp]: "eeprom (tone_stop m) = eeprom m"
  by (simp add: tone_stop_def Let_def)

lemma tone_calls_append: "tone_calls (xs @ ys) = tone_calls xs @ tone_calls ys"
  by (induction xs rule: tone_calls.induct) simp_all

lemma elapsed_ms_append: "elapsed_ms (xs @ ys) = elapsed_ms xs + elapsed_ms ys"
  by (induction xs rule: elapsed_ms.induct) simp_all

section \<open>The delay loop\<close>

lemma wait_events_0 [simp]: "wait_events 0 = []"
  by (simp add: wait_events_def)

lemma wait_events_Suc: "wait_events (Suc n) = DelayMs 10 # WdtReset # wait_events n"
  by (simp add: wait_events_def)

lemma length_wait_events [simp]: "length (wait_events n) = 2 * n"
  by (induction n) (simp_all add: wait_events_Suc)

text \<open>
  The loop runs \<open>duration_ms div 10\<close> times and does nothing but extend the trace. The
  induction follows the loop; the counter is at least 10 in the step, so its
  subtraction does not wrap.
\<close>

lemma delay_blocks_eq:
  "delay_blocks d s = s\<lparr>trace := trace s @ wait_events (unat d div 10)\<rparr>"
proof (induction d s rule: delay_blocks.induct)
  case (1 d s)
  show ?case
  proof (cases "10 \<le> d")
    case True
    then have u: "unat (d - 10) = unat d - 10" and ge: "10 \<le> unat d"
      by (simp_all add: unat_sub word_le_nat_alt)
    then have "unat d div 10 = Suc (unat (d - 10) div 10)"
      by (simp add: le_div_geq)
    with True "1.IH" show ?thesis
      by (subst delay_blocks.simps)
        (simp add: wait_events_Suc wdt_reset_def delay_ms_def emit_def)
  next
    case False
    then have "unat d < 10" by (simp add: word_le_nat_alt)
    with False show ?thesis
      by (subst delay_blocks.simps) simp
  qed
qed

lemma pause_eq: "pause d s = s\<lparr>trace := trace s @ wait_events (unat d div 10)\<rparr>"
  by (simp add: pause_def delay_blocks_eq)

lemma trace_pause: "trace (pause d s) = trace s @ wait_events (unat d div 10)"
  by (simp add: pause_eq)


lemma trace_beep:
  "trace (beep clk f d s) =
     trace s @ [CallToneStart f] @ wait_events (unat d div 10) @ [CallToneStop]"
  by (simp add: beep_def delay_blocks_eq call_tone_start_def call_tone_stop_def)


lemma elapsed_wait_events: "elapsed_ms (wait_events n) = 10 * n"
  by (induction n) (simp_all add: wait_events_Suc)

lemma unguarded_wait_events:
  "unguarded_ms (wait_events n) 0 best = max best (if n = 0 then 0 else 10)"
  by (induction n arbitrary: best) (auto simp add: wait_events_Suc max_def)

text \<open>
  Claim C10. The wait in \<^verbatim>\<open>pause\<close> and in \<^verbatim>\<open>beep\<close> lasts \<open>10 * (duration_ms div 10)\<close>
  milliseconds: the part of the duration below a multiple of 10 is dropped. For a
  duration below 10 the loop body never runs: \<^verbatim>\<open>pause\<close> returns the state unchanged
  and \<^verbatim>\<open>beep\<close> is a \<^verbatim>\<open>tone_start\<close> followed at once by \<^verbatim>\<open>tone_stop\<close>.
\<close>

theorem wait_rounds_down_to_10ms:
  "elapsed_ms (trace (pause d s)) = elapsed_ms (trace s) + 10 * (unat d div 10)
   \<and> elapsed_ms (trace (beep clk f d s)) = elapsed_ms (trace s) + 10 * (unat d div 10)
   \<and> (d < 10 \<longrightarrow> pause d s = s \<and> beep clk f d s = call_tone_stop (call_tone_start clk f s))"
proof -
  have p: "elapsed_ms (trace (pause d s)) = elapsed_ms (trace s) + 10 * (unat d div 10)"
    by (simp add: trace_pause elapsed_ms_append elapsed_wait_events)
  have b: "elapsed_ms (trace (beep clk f d s)) = elapsed_ms (trace s) + 10 * (unat d div 10)"
    by (simp add: trace_beep elapsed_ms_append elapsed_wait_events)
  have short: "pause d s = s \<and> beep clk f d s = call_tone_stop (call_tone_start clk f s)"
    if "d < 10"
  proof -
    from that have "unat d div 10 = 0"
      by (simp add: word_less_nat_alt)
    then have "delay_blocks d s' = s'" for s'
      by (simp add: delay_blocks_eq)
    then show ?thesis
      by (simp add: pause_def beep_def)
  qed
  from p b short show ?thesis by blast
qed

text \<open>
  A pause of 9 ms does not wait at all, a pause of 1505 ms waits 1500 ms, and a beep of
  25 ms sounds for 20 ms.
\<close>

theorem wait_rounds_down_to_10ms_witness:
  "(9 :: u16) < 10 \<and> pause 9 boot_sys = boot_sys
   \<and> beep F_CPU_1200000 2500 9 boot_sys
       = call_tone_stop (call_tone_start F_CPU_1200000 2500 boot_sys)
   \<and> elapsed_ms (trace (pause 1505 boot_sys)) = 1500
   \<and> elapsed_ms (trace (beep F_CPU_1200000 2500 25 boot_sys)) = 20"
  using wait_rounds_down_to_10ms [of 9 boot_sys F_CPU_1200000 2500]
    wait_rounds_down_to_10ms [of 1505 boot_sys F_CPU_1200000 2500]
    wait_rounds_down_to_10ms [of 25 boot_sys F_CPU_1200000 2500]
  by (simp add: boot_sys_def)

section \<open>The main loop\<close>

lemma and_2_eq_0: "(x AND 2 = 0) = (\<not> bit x 1)" for x :: u8
  using and_exp_eq_0_iff_not_bit [of x 1] by simp

text \<open>The function reports a request for sound exactly when the pin reads low.\<close>

lemma fc_wants_sound_iff: "fc_wants_sound m \<noteq> 0 \<longleftrightarrow> \<not> bit (PINB m) SIGNAL_PIN"
  by (simp add: fc_wants_sound_def and_2_eq_0)

lemma trace_drive_input [simp]: "trace (drive_input p s) = trace s"
  by (simp add: drive_input_def)

lemma current_freq_drive_input [simp]: "current_freq (drive_input p s) = current_freq s"
  by (simp add: drive_input_def)

lemma trace_tick [simp]: "trace (delay_us n (wdt_reset s)) = trace s @ [WdtReset, DelayUs n]"
  by (simp add: delay_us_def wdt_reset_def)

lemma current_freq_tick [simp]: "current_freq (delay_us n (wdt_reset s)) = current_freq s"
  by (simp add: delay_us_def wdt_reset_def)

text \<open>The four cases of one turn of the loop.\<close>

lemma body_start:
  "\<not> bit pinb SIGNAL_PIN \<Longrightarrow>
     main_loop_body clk (drive_input pinb s, 0) =
       (delay_us 100 (wdt_reset (call_tone_start clk (current_freq s) (drive_input pinb s))), 1)"
  by (simp add: main_loop_body_def fc_wants_sound_iff drive_input_def)

lemma body_stop:
  "bit pinb SIGNAL_PIN \<Longrightarrow> sound_on \<noteq> 0 \<Longrightarrow>
     main_loop_body clk (drive_input pinb s, sound_on) =
       (delay_us 100 (wdt_reset (call_tone_stop (drive_input pinb s))), 0)"
  by (simp add: main_loop_body_def fc_wants_sound_iff drive_input_def)

lemma body_keep_sounding:
  "\<not> bit pinb SIGNAL_PIN \<Longrightarrow> sound_on \<noteq> 0 \<Longrightarrow>
     main_loop_body clk (drive_input pinb s, sound_on) =
       (delay_us 100 (wdt_reset (drive_input pinb s)), sound_on)"
  by (simp add: main_loop_body_def fc_wants_sound_iff drive_input_def)

lemma body_keep_silent:
  "bit pinb SIGNAL_PIN \<Longrightarrow>
     main_loop_body clk (drive_input pinb s, 0) =
       (delay_us 100 (wdt_reset (drive_input pinb s)), 0)"
  by (simp add: main_loop_body_def fc_wants_sound_iff drive_input_def)

lemma trace_main_loop_body:
  "\<exists>calls. trace (fst (main_loop_body clk (s, sound_on))) = trace s @ calls @ [WdtReset, DelayUs 100]
           \<and> tone_calls calls = calls"
proof -
  consider (start) "fc_wants_sound (hw s) \<noteq> 0" "sound_on = 0"
    | (stop) "fc_wants_sound (hw s) = 0" "sound_on \<noteq> 0"
    | (keep) "(fc_wants_sound (hw s) \<noteq> 0) = (sound_on \<noteq> 0)"
    by blast
  then show ?thesis
  proof cases
    case start
    then have "trace (fst (main_loop_body clk (s, sound_on)))
                 = trace s @ [CallToneStart (current_freq s)] @ [WdtReset, DelayUs 100]"
      by (simp add: main_loop_body_def)
    moreover have "tone_calls [CallToneStart (current_freq s)] = [CallToneStart (current_freq s)]"
      by simp
    ultimately show ?thesis by blast
  next
    case stop
    then have "trace (fst (main_loop_body clk (s, sound_on)))
                 = trace s @ [CallToneStop] @ [WdtReset, DelayUs 100]"
      by (simp add: main_loop_body_def)
    moreover have "tone_calls [CallToneStop] = [CallToneStop]"
      by simp
    ultimately show ?thesis by blast
  next
    case keep
    then have "trace (fst (main_loop_body clk (s, sound_on)))
                 = trace s @ [] @ [WdtReset, DelayUs 100]"
      by (auto simp add: main_loop_body_def)
    moreover have "tone_calls [] = []"
      by simp
    ultimately show ?thesis by blast
  qed
qed

text \<open>
  Claim C9. Every turn of the polling loop ends with a watchdog reset followed by the
  100 microsecond delay, whatever the turn did before (at most one call into the tone
  generator). The wait of \<^verbatim>\<open>pause\<close> and of \<^verbatim>\<open>beep\<close> is a sequence of 10 ms delays, each
  followed by a watchdog reset, so that no stretch of it waits longer than 10 ms
  without a reset.
\<close>

theorem watchdog_reasserted:
  "(\<exists>calls. trace (fst (main_loop_body clk (s, sound_on)))
               = trace s @ calls @ [WdtReset, DelayUs 100]
            \<and> tone_calls calls = calls)
   \<and> trace (pause d s) = trace s @ wait_events (unat d div 10)
   \<and> trace (beep clk f d s)
       = trace s @ [CallToneStart f] @ wait_events (unat d div 10) @ [CallToneStop]
   \<and> wait_events n = concat (replicate n [DelayMs 10, WdtReset])
   \<and> unguarded_ms (wait_events n) 0 0 \<le> 10
   \<and> unguarded_ms ([CallToneStart f] @ wait_events n @ [CallToneStop]) 0 0 \<le> 10"
proof -
  have w: "unguarded_ms (wait_events n) 0 0 \<le> 10"
    by (simp add: unguarded_wait_events)
  have "unguarded_ms (xs @ [CallToneStop]) cur best = unguarded_ms xs cur best"
    for xs cur best
    by (induction xs cur best rule: unguarded_ms.induct) simp_all
  with w have b: "unguarded_ms ([CallToneStart f] @ wait_events n @ [CallToneStop]) 0 0 \<le> 10"
    by simp
  from trace_main_loop_body [of clk s sound_on] trace_pause [of d s] trace_beep [of clk f d s] w b
  show ?thesis
    by (simp add: wait_events_def)
qed

text \<open>
  A 25 ms pause after reset: two delays, each with its reset, and 10 ms as the longest
  unguarded wait. A turn of the loop with the pin high and no sound: reset, then delay.
\<close>

theorem watchdog_reasserted_witness:
  "trace (pause 25 boot_sys) = [DelayMs 10, WdtReset, DelayMs 10, WdtReset]
   \<and> unguarded_ms (trace (pause 25 boot_sys)) 0 0 = 10
   \<and> trace (beep F_CPU_1200000 2500 10 boot_sys)
       = [CallToneStart 2500, DelayMs 10, WdtReset, CallToneStop]"
proof -
  have w2: "wait_events 2 = [DelayMs 10, WdtReset, DelayMs 10, WdtReset]"
    by (simp add: wait_events_def numeral_2_eq_2)
  have w1: "wait_events (Suc 0) = [DelayMs 10, WdtReset]"
    by (simp add: wait_events_def)
  have p: "trace (pause 25 boot_sys) = trace boot_sys @ wait_events 2"
    using watchdog_reasserted [of F_CPU_1200000 boot_sys 0 25 2500 2] by simp
  have b: "trace (beep F_CPU_1200000 2500 10 boot_sys)
             = trace boot_sys @ [CallToneStart 2500] @ wait_events (Suc 0) @ [CallToneStop]"
    using watchdog_reasserted [of F_CPU_1200000 boot_sys 0 10 2500 1] by simp
  show ?thesis
    unfolding p b w1 w2 by (simp add: boot_sys_def)
qed

section \<open>The persistent frequency store\<close>

text \<open>A 16-bit value is the combination of its two bytes, low byte first.\<close>

lemma word_of_bytes:
  "(ucast (ucast (v :: u16) :: u8) :: u16) OR push_bit 8 (ucast (ucast (drop_bit 8 v) :: u8)) = v"
  by (rule bit_word_eqI) (auto simp add: bit_simps)

lemma trace_save:
  "trace (save_freq_to_eeprom f s) =
     trace s @ [EepromWriteWord EEPROM_FREQ_ADDR f, EepromWriteByte EEPROM_MAGIC_ADDR EEPROM_MAGIC]"
  by (simp add: save_freq_to_eeprom_def eeprom_write_byte_def eeprom_write_word_def)

lemma eeprom_save:
  "eeprom (hw (save_freq_to_eeprom f s)) =
     (eeprom (hw s))(0 := ucast f, 1 := ucast (drop_bit 8 f), 2 := 0xAB)"
  by (simp add: save_freq_to_eeprom_def eeprom_write_byte_def eeprom_write_word_def)

lemma load_after_save:
  "fst (load_freq_from_eeprom (save_freq_to_eeprom f s)) =
     (if f < 2400 \<or> f > 4500 then 2500 else f)"
  by (simp add: load_freq_from_eeprom_def save_freq_to_eeprom_def eeprom_read_byte_def
      eeprom_read_word_def eeprom_write_byte_def eeprom_write_word_def word_of_bytes)

lemma load_unmarked:
  assumes "eeprom (hw s) EEPROM_MAGIC_ADDR \<noteq> EEPROM_MAGIC"
  shows "load_freq_from_eeprom s = (DEFAULT_FREQ, emit (EepromReadByte EEPROM_MAGIC_ADDR) s)"
  using assms by (simp add: load_freq_from_eeprom_def eeprom_read_byte_def)

lemma load_marked:
  assumes "eeprom (hw s) EEPROM_MAGIC_ADDR = EEPROM_MAGIC"
  shows "load_freq_from_eeprom s =
           (if fst (eeprom_read_word EEPROM_FREQ_ADDR s) < 2400
               \<or> fst (eeprom_read_word EEPROM_FREQ_ADDR s) > 4500
            then DEFAULT_FREQ
            else fst (eeprom_read_word EEPROM_FREQ_ADDR s),
            emit (EepromReadWord EEPROM_FREQ_ADDR) (emit (EepromReadByte EEPROM_MAGIC_ADDR) s))"
  using assms
  by (simp add: load_freq_from_eeprom_def eeprom_read_byte_def eeprom_read_word_def)

lemma load_result_range:
  "2400 \<le> fst (load_freq_from_eeprom s) \<and> fst (load_freq_from_eeprom s) \<le> 4500"
proof (cases "eeprom (hw s) EEPROM_MAGIC_ADDR = EEPROM_MAGIC")
  case True
  show ?thesis
    unfolding load_marked [OF True] by (simp add: not_less)
next
  case False
  show ?thesis
    unfolding load_unmarked [OF False] by simp
qed



text \<open>
  Claim C1. When the byte at the marker address is not \<open>0xAB\<close>, \<^verbatim>\<open>load_freq_from_eeprom\<close>
  returns 2500 and its only EEPROM access is the read of the marker: the frequency
  word is not read. When the marker is \<open>0xAB\<close>, it reads the word and returns it if and
  only if the word lies in \<open>[2400, 4500]\<close>; outside that range it returns 2500. In every
  case it returns, its result lies in \<open>[2400, 4500]\<close>, and it changes no hardware state.
\<close>

theorem load_freq_from_eeprom_result:
  "(eeprom (hw s) EEPROM_MAGIC_ADDR \<noteq> EEPROM_MAGIC \<longrightarrow>
       fst (load_freq_from_eeprom s) = DEFAULT_FREQ
     \<and> trace (snd (load_freq_from_eeprom s)) = trace s @ [EepromReadByte EEPROM_MAGIC_ADDR])
   \<and> (eeprom (hw s) EEPROM_MAGIC_ADDR = EEPROM_MAGIC \<longrightarrow>
       (fst (load_freq_from_eeprom s) = fst (eeprom_read_word EEPROM_FREQ_ADDR s)
          \<longleftrightarrow> 2400 \<le> fst (eeprom_read_word EEPROM_FREQ_ADDR s)
              \<and> fst (eeprom_read_word EEPROM_FREQ_ADDR s) \<le> 4500)
     \<and> (\<not> (2400 \<le> fst (eeprom_read_word EEPROM_FREQ_ADDR s)
             \<and> fst (eeprom_read_word EEPROM_FREQ_ADDR s) \<le> 4500) \<longrightarrow>
          fst (load_freq_from_eeprom s) = DEFAULT_FREQ)
     \<and> trace (snd (load_freq_from_eeprom s))
         = trace s @ [EepromReadByte EEPROM_MAGIC_ADDR, EepromReadWord EEPROM_FREQ_ADDR])
   \<and> 2400 \<le> fst (load_freq_from_eeprom s) \<and> fst (load_freq_from_eeprom s) \<le> 4500
   \<and> hw (snd (load_freq_from_eeprom s)) = hw s"
proof -
  let ?stored = "fst (eeprom_read_word EEPROM_FREQ_ADDR s)"
  have unmarked: "fst (load_freq_from_eeprom s) = DEFAULT_FREQ
      \<and> trace (snd (load_freq_from_eeprom s)) = trace s @ [EepromReadByte EEPROM_MAGIC_ADDR]"
    if "eeprom (hw s) EEPROM_MAGIC_ADDR \<noteq> EEPROM_MAGIC"
    unfolding load_unmarked [OF that] by simp
  have marked: "(fst (load_freq_from_eeprom s) = ?stored \<longleftrightarrow> 2400 \<le> ?stored \<and> ?stored \<le> 4500)
      \<and> (\<not> (2400 \<le> ?stored \<and> ?stored \<le> 4500) \<longrightarrow> fst (load_freq_from_eeprom s) = DEFAULT_FREQ)
      \<and> trace (snd (load_freq_from_eeprom s))
          = trace s @ [EepromReadByte EEPROM_MAGIC_ADDR, EepromReadWord EEPROM_FREQ_ADDR]"
    if "eeprom (hw s) EEPROM_MAGIC_ADDR = EEPROM_MAGIC"
    unfolding load_marked [OF that] by (auto simp add: not_less not_le)
  have same: "hw (snd (load_freq_from_eeprom s)) = hw s"
    by (cases "eeprom (hw s) EEPROM_MAGIC_ADDR = EEPROM_MAGIC")
      (simp_all add: load_marked load_unmarked)
  from unmarked marked load_result_range [of s] same show ?thesis by blast
qed

text \<open>
  On the erased EEPROM the result is 2500 after one read of the marker; on the record
  left by a calibration at 2800 Hz the result is 2800 after both reads.
\<close>

theorem load_freq_from_eeprom_result_witness:
  "eeprom (hw boot_sys) EEPROM_MAGIC_ADDR \<noteq> EEPROM_MAGIC
   \<and> fst (load_freq_from_eeprom boot_sys) = 2500
   \<and> trace (snd (load_freq_from_eeprom boot_sys)) = [EepromReadByte 2]
   \<and> eeprom (hw calibrated_sys) EEPROM_MAGIC_ADDR = EEPROM_MAGIC
   \<and> fst (eeprom_read_word EEPROM_FREQ_ADDR calibrated_sys) = 2800
   \<and> fst (load_freq_from_eeprom calibrated_sys) = 2800
   \<and> trace (snd (load_freq_from_eeprom calibrated_sys)) = [EepromReadByte 2, EepromReadWord 0]"
proof -
  have b: "eeprom (hw boot_sys) EEPROM_MAGIC_ADDR \<noteq> EEPROM_MAGIC"
    by (simp add: boot_sys_def reset_mcu_def)
  have c: "eeprom (hw calibrated_sys) EEPROM_MAGIC_ADDR = EEPROM_MAGIC"
    by (simp add: calibrated_sys_def reset_mcu_def)
  have w: "fst (eeprom_read_word EEPROM_FREQ_ADDR calibrated_sys) = 2800"
    by (simp add: calibrated_sys_def reset_mcu_def eeprom_read_word_def)
  have tb: "trace boot_sys = []" and tc: "trace calibrated_sys = []"
    by (simp_all add: boot_sys_def calibrated_sys_def)
  from load_freq_from_eeprom_result [of boot_sys] load_freq_from_eeprom_result [of calibrated_sys]
    b c w tb tc
  show ?thesis by simp
qed

text \<open>
  Claim C2. For every frequency \<open>f\<close> in \<open>[2400, 4500]\<close>, a load after \<^verbatim>\<open>save_freq_to_eeprom(f)\<close>
  returns \<open>f\<close>, whatever the EEPROM held before. After saving 2500 and then 2600 a load
  returns 2600. On storage whose marker byte is not \<open>0xAB\<close> a load returns 2500.
\<close>

theorem save_then_load:
  "(2400 \<le> f \<and> f \<le> 4500 \<longrightarrow> fst (load_freq_from_eeprom (save_freq_to_eeprom f s)) = f)
   \<and> fst (load_freq_from_eeprom (save_freq_to_eeprom 2600 (save_freq_to_eeprom 2500 s))) = 2600
   \<and> (eeprom (hw s) EEPROM_MAGIC_ADDR \<noteq> EEPROM_MAGIC \<longrightarrow>
        fst (load_freq_from_eeprom s) = 2500)"
proof -
  have roundtrip: "fst (load_freq_from_eeprom (save_freq_to_eeprom f s)) = f"
    if "2400 \<le> f \<and> f \<le> 4500"
  proof -
    from that have "\<not> f < 2400" and "\<not> 4500 < f"
      by (simp_all add: not_less)
    then show ?thesis
      by (simp add: load_after_save)
  qed
  have last: "fst (load_freq_from_eeprom (save_freq_to_eeprom 2600 (save_freq_to_eeprom 2500 s)))
                = 2600"
    by (simp add: load_after_save)
  have fresh: "fst (load_freq_from_eeprom s) = 2500"
    if "eeprom (hw s) EEPROM_MAGIC_ADDR \<noteq> EEPROM_MAGIC"
    by (simp add: load_unmarked [OF that])
  from roundtrip last fresh show ?thesis by blast
qed

text \<open>
  Both ends of the accepted range survive the round trip from the erased EEPROM, which
  itself loads as 2500.
\<close>

theorem save_then_load_witness:
  "(2400 :: u16) \<le> 4500 \<and> (4500 :: u16) \<le> 4500
   \<and> fst (load_freq_from_eeprom (save_freq_to_eeprom 4500 boot_sys)) = 4500
   \<and> fst (load_freq_from_eeprom (save_freq_to_eeprom 2400 boot_sys)) = 2400
   \<and> fst (load_freq_from_eeprom (save_freq_to_eeprom 2600 (save_freq_to_eeprom 2500 boot_sys)))
       = 2600
   \<and> eeprom (hw boot_sys) EEPROM_MAGIC_ADDR \<noteq> EEPROM_MAGIC
   \<and> fst (load_freq_from_eeprom boot_sys) = 2500"
proof -
  have b: "eeprom (hw boot_sys) EEPROM_MAGIC_ADDR \<noteq> EEPROM_MAGIC"
    by (simp add: boot_sys_def reset_mcu_def)
  from save_then_load [of 4500 boot_sys] save_then_load [of 2400 boot_sys] b
  show ?thesis by simp
qed

text \<open>
  Claim C7. \<^verbatim>\<open>save_freq_to_eeprom(f)\<close> makes exactly two EEPROM writes, in this order:
  the 16-bit value \<open>f\<close> at address 0, then the marker byte \<open>0xAB\<close> at address 2. Afterwards
  the word at address 0 reads \<open>f\<close> and the byte at address 2 reads \<open>0xAB\<close>; bytes 0, 1
  and 2 are the only ones that can differ from before, and nothing else of the state
  changes.
\<close>

theorem save_freq_to_eeprom_writes:
  "trace (save_freq_to_eeprom f s)
     = trace s @ [EepromWriteWord EEPROM_FREQ_ADDR f, EepromWriteByte EEPROM_MAGIC_ADDR EEPROM_MAGIC]
   \<and> eeprom (hw (save_freq_to_eeprom f s))
       = (eeprom (hw s))(0 := ucast f, 1 := ucast (drop_bit 8 f), 2 := EEPROM_MAGIC)
   \<and> fst (eeprom_read_word EEPROM_FREQ_ADDR (save_freq_to_eeprom f s)) = f
   \<and> fst (eeprom_read_byte EEPROM_MAGIC_ADDR (save_freq_to_eeprom f s)) = EEPROM_MAGIC
   \<and> (\<forall>a. 2 < a \<longrightarrow> eeprom (hw (save_freq_to_eeprom f s)) a = eeprom (hw s) a)
   \<and> (hw (save_freq_to_eeprom f s))\<lparr>eeprom := eeprom (hw s)\<rparr> = hw s
   \<and> current_freq (save_freq_to_eeprom f s) = current_freq s"
proof -
  have w: "fst (eeprom_read_word EEPROM_FREQ_ADDR (save_freq_to_eeprom f s)) = f"
    by (simp add: eeprom_read_word_def eeprom_save word_of_bytes)
  have b: "fst (eeprom_read_byte EEPROM_MAGIC_ADDR (save_freq_to_eeprom f s)) = EEPROM_MAGIC"
    by (simp add: eeprom_read_byte_def eeprom_save)
  have other: "\<forall>a. 2 < a \<longrightarrow> eeprom (hw (save_freq_to_eeprom f s)) a = eeprom (hw s) a"
    by (simp add: eeprom_save)
  have rest: "(hw (save_freq_to_eeprom f s))\<lparr>eeprom := eeprom (hw s)\<rparr> = hw s"
    "current_freq (save_freq_to_eeprom f s) = current_freq s"
    by (simp_all add: save_freq_to_eeprom_def eeprom_write_byte_def eeprom_write_word_def)
  from trace_save [of f s] eeprom_save [of f s] w b other rest show ?thesis
    by simp
qed

text \<open>
  Saving 2600 (\<open>0x0A28\<close>) on the erased EEPROM: two writes, bytes \<open>0x28\<close>, \<open>0x0A\<close>, \<open>0xAB\<close> at
  addresses 0 to 2, and byte 3 still erased.
\<close>

theorem save_freq_to_eeprom_writes_witness:
  "trace (save_freq_to_eeprom 2600 boot_sys) = [EepromWriteWord 0 2600, EepromWriteByte 2 0xAB]
   \<and> eeprom (hw (save_freq_to_eeprom 2600 boot_sys)) 0 = 0x28
   \<and> eeprom (hw (save_freq_to_eeprom 2600 boot_sys)) 1 = 0x0A
   \<and> eeprom (hw (save_freq_to_eeprom 2600 boot_sys)) 2 = 0xAB
   \<and> (2 :: nat) < 3
   \<and> eeprom (hw (save_freq_to_eeprom 2600 boot_sys)) 3 = 0xFF"
proof -
  have e: "eeprom (hw boot_sys) = (\<lambda>a. 0xFF)" and t: "trace boot_sys = []"
    by (simp_all add: boot_sys_def reset_mcu_def)
  from save_freq_to_eeprom_writes [of 2600 boot_sys] show ?thesis
    unfolding e t by simp
qed

section \<open>The relay state machine\<close>

lemma count_tone_start_append:
  "count_tone_start (xs @ ys) = count_tone_start xs + count_tone_start ys"
  by (induction xs rule: count_tone_start.induct) simp_all

lemma count_tone_stop_append:
  "count_tone_stop (xs @ ys) = count_tone_stop xs + count_tone_stop ys"
  by (induction xs rule: count_tone_stop.induct) simp_all

text \<open>
  Claim C5, as the code has it. The input is active low: a LOW sample (bit \<^verbatim>\<open>PB1\<close> of
  \<^verbatim>\<open>PINB\<close> clear) requests sound. Starting silent (\<^verbatim>\<open>sound_on = 0\<close>), three consecutive
  samples HIGH, LOW, HIGH leave the loop silent, sounding, silent, with exactly one
  call of \<^verbatim>\<open>tone_start\<close>, at \<^verbatim>\<open>current_freq\<close>, and then exactly one call of \<^verbatim>\<open>tone_stop\<close>.
  Only the sampled values enter the state, so how long a level was held between two
  samples plays no part. A turn whose sample agrees with the state (HIGH while silent,
  LOW while sounding) makes no call: it only resets the watchdog and delays.
\<close>

theorem relay_pulse:
  assumes "bit p1 SIGNAL_PIN" and "\<not> bit p2 SIGNAL_PIN" and "bit p3 SIGNAL_PIN"
  shows "snd (main_loop clk [p1] (s, 0)) = 0
       \<and> snd (main_loop clk [p1, p2] (s, 0)) = 1
       \<and> snd (main_loop clk [p1, p2, p3] (s, 0)) = 0
       \<and> tone_calls (trace (fst (main_loop clk [p1] (s, 0)))) = tone_calls (trace s)
       \<and> tone_calls (trace (fst (main_loop clk [p1, p2] (s, 0))))
           = tone_calls (trace s) @ [CallToneStart (current_freq s)]
       \<and> tone_calls (trace (fst (main_loop clk [p1, p2, p3] (s, 0))))
           = tone_calls (trace s) @ [CallToneStart (current_freq s), CallToneStop]
       \<and> count_tone_start (trace (fst (main_loop clk [p1, p2, p3] (s, 0))))
           = count_tone_start (trace s) + 1
       \<and> count_tone_stop (trace (fst (main_loop clk [p1, p2, p3] (s, 0))))
           = count_tone_stop (trace s) + 1
       \<and> (\<forall>p s'. bit p SIGNAL_PIN \<longrightarrow>
             main_loop_body clk (drive_input p s', 0)
               = (delay_us 100 (wdt_reset (drive_input p s')), 0))
       \<and> (\<forall>p s' sound_on. \<not> bit p SIGNAL_PIN \<and> sound_on \<noteq> 0 \<longrightarrow>
             main_loop_body clk (drive_input p s', sound_on)
               = (delay_us 100 (wdt_reset (drive_input p s')), sound_on))"
proof -
  have states: "snd (main_loop clk [p1] (s, 0)) = 0"
    "snd (main_loop clk [p1, p2] (s, 0)) = 1"
    "snd (main_loop clk [p1, p2, p3] (s, 0)) = 0"
    using assms by (simp_all add: body_start body_stop body_keep_silent)
  have calls: "tone_calls (trace (fst (main_loop clk [p1] (s, 0)))) = tone_calls (trace s)"
    "tone_calls (trace (fst (main_loop clk [p1, p2] (s, 0))))
       = tone_calls (trace s) @ [CallToneStart (current_freq s)]"
    "tone_calls (trace (fst (main_loop clk [p1, p2, p3] (s, 0))))
       = tone_calls (trace s) @ [CallToneStart (current_freq s), CallToneStop]"
    using assms by (simp_all add: body_start body_stop body_keep_silent tone_calls_append)
  have counts: "count_tone_start (trace (fst (main_loop clk [p1, p2, p3] (s, 0))))
                  = count_tone_start (trace s) + 1"
    "count_tone_stop (trace (fst (main_loop clk [p1, p2, p3] (s, 0))))
       = count_tone_stop (trace s) + 1"
    using assms
    by (simp_all add: body_start body_stop body_keep_silent count_tone_start_append
        count_tone_stop_append)
  have idle: "\<forall>p s'. bit p SIGNAL_PIN \<longrightarrow>
             main_loop_body clk (drive_input p s', 0)
               = (delay_us 100 (wdt_reset (drive_input p s')), 0)"
    using body_keep_silent by blast
  have busy: "\<forall>p s' sound_on. \<not> bit p SIGNAL_PIN \<and> sound_on \<noteq> 0 \<longrightarrow>
             main_loop_body clk (drive_input p s', sound_on)
               = (delay_us 100 (wdt_reset (drive_input p s')), sound_on)"
    using body_keep_sounding by blast
  from states calls counts idle busy show ?thesis by blast
qed

text \<open>
  From reset, the samples \<open>0x02\<close>, \<open>0x00\<close>, \<open>0x02\<close> (HIGH, LOW, HIGH on \<^verbatim>\<open>PB1\<close>) give one
  start at 2500 Hz and one stop, and end silent.
\<close>

theorem relay_pulse_witness:
  "bit (0x02 :: u8) SIGNAL_PIN \<and> \<not> bit (0x00 :: u8) SIGNAL_PIN
   \<and> snd (main_loop F_CPU_1200000 [0x02, 0x00] (boot_sys, 0)) = 1
   \<and> snd (main_loop F_CPU_1200000 [0x02, 0x00, 0x02] (boot_sys, 0)) = 0
   \<and> tone_calls (trace (fst (main_loop F_CPU_1200000 [0x02, 0x00, 0x02] (boot_sys, 0))))
       = [CallToneStart 2500, CallToneStop]
   \<and> count_tone_start (trace (fst (main_loop F_CPU_1200000 [0x02, 0x00, 0x02] (boot_sys, 0)))) = 1
   \<and> count_tone_stop (trace (fst (main_loop F_CPU_1200000 [0x02, 0x00, 0x02] (boot_sys, 0)))) = 1"
proof -
  have hi: "bit (0x02 :: u8) SIGNAL_PIN" and lo: "\<not> bit (0x00 :: u8) SIGNAL_PIN"
    by simp_all
  have b: "trace boot_sys = []" "current_freq boot_sys = 2500"
    by (simp_all add: boot_sys_def)
  from relay_pulse [OF hi lo hi, of F_CPU_1200000 boot_sys] hi lo show ?thesis
    unfolding b by (simp del: main_loop.simps)
qed

text \<open>
  The sample sequence LOW, HIGH, LOW from the silent state does something else: the
  first LOW starts the tone, the HIGH stops it, and the second LOW starts it again.
  That is two calls of \<^verbatim>\<open>tone_start\<close> and one of \<^verbatim>\<open>tone_stop\<close>, and the loop ends
  sounding.
\<close>

theorem relay_low_high_low_counterexample:
  "\<not> bit (0x00 :: u8) SIGNAL_PIN \<and> bit (0x02 :: u8) SIGNAL_PIN
   \<and> snd (main_loop F_CPU_1200000 [0x00] (boot_sys, 0)) = 1
   \<and> snd (main_loop F_CPU_1200000 [0x00, 0x02] (boot_sys, 0)) = 0
   \<and> snd (main_loop F_CPU_1200000 [0x00, 0x02, 0x00] (boot_sys, 0)) = 1
   \<and> tone_calls (trace (fst (main_loop F_CPU_1200000 [0x00, 0x02, 0x00] (boot_sys, 0))))
       = [CallToneStart 2500, CallToneStop, CallToneStart 2500]
   \<and> count_tone_start (trace (fst (main_loop F_CPU_1200000 [0x00, 0x02, 0x00] (boot_sys, 0)))) = 2
   \<and> count_tone_stop (trace (fst (main_loop F_CPU_1200000 [0x00, 0x02, 0x00] (boot_sys, 0)))) = 1"
proof -
  have hi: "bit (0x02 :: u8) SIGNAL_PIN" and lo: "\<not> bit (0x00 :: u8) SIGNAL_PIN"
    by simp_all
  have b: "trace boot_sys = []" "current_freq boot_sys = 2500"
    by (simp_all add: boot_sys_def)
  have one: "(1 :: u8) \<noteq> 0" by simp
  show ?thesis
    using hi lo
    by (simp add: body_start [OF lo] body_stop [OF hi one] b tone_calls_append
        count_tone_start_append count_tone_stop_append)
qed

section \<open>The calibration sweep\<close>

subsection \<open>The loop does not return\<close>



subsection \<open>Traces and EEPROM of the sweep\<close>


lemma replay_wait_events [simp]: "fold replay_eeprom (wait_events n) e = e"
  by (induction n) (simp_all add: wait_events_Suc)











subsection \<open>The persisted frequency at every point of the sweep\<close>




lemma tone_since_save_wait_events [simp]: "tone_since_save (wait_events n) t = t"
  by (induction n) (simp_all add: wait_events_Suc)

lemma last_tone_wait_events [simp]: "last_tone (wait_events n) t = t"
  by (induction n) (simp_all add: wait_events_Suc)



lemma persisted_throughout_wait_events [simp]:
  "persisted_throughout (wait_events n) e t = persisted_is e t"
  by (induction n) (auto simp add: wait_events_Suc)













end
